theory Spec2Isabelle
  imports Main "HOL-Library.Word"
begin

section \<open>Operations on 64 bit address ranges (include/qemu/range.h)\<close>

text \<open>
  The header works on \<open>uint64_t\<close> throughout: every \<open>+\<close> and \<open>-\<close> below is the
  wrapping arithmetic of \<open>64 word\<close>, and \<open><\<close>, \<open>\<le>\<close> compare unsigned values.
\<close>

type_synonym u64 = "64 word"

text \<open>
  \<open>struct Range\<close>. The fields are \<open>begin\<close> and \<open>end\<close> in the source; both words are
  reserved in theory text, so the selectors carry a prime.
\<close>

record Range =
  begin' :: u64
  end' :: u64

text \<open>
  A failed \<open>assert\<close> aborts the program and \<open>range_init\<close> may return \<open>-ERANGE\<close>;
  both are error values here.
\<close>

datatype error = ERANGE | Assertion_failed

text \<open>\<open>#define range_empty ((Range){ .begin = 1, .end = 0 })\<close>\<close>

definition range_empty :: Range where
  "range_empty = \<lparr>begin' = 1, end' = 0\<rparr>"

text \<open>\<open>assert(range->begin <= range->end || range->begin == range->end + 1)\<close>\<close>

definition range_invariant :: "Range \<Rightarrow> error + unit" where
  "range_invariant rng =
     (if begin' rng \<le> end' rng \<or> begin' rng = end' rng + 1
      then Inr () else Inl Assertion_failed)"

text \<open>The invariant is asserted first, then \<open>begin > end\<close> is returned.\<close>

definition range_is_empty :: "Range \<Rightarrow> error + bool" where
  "range_is_empty rng =
     (case range_invariant rng of
        Inl e \<Rightarrow> Inl e
      | Inr _ \<Rightarrow> Inr (end' rng < begin' rng))"

text \<open>\<open>*range = range_empty; assert(range_is_empty(range));\<close>\<close>

definition range_make_empty :: "error + Range" where
  "range_make_empty =
     (case range_is_empty range_empty of
        Inl e \<Rightarrow> Inl e
      | Inr b \<Rightarrow> if b then Inr range_empty else Inl Assertion_failed)"

text \<open>
  \<open>range_is_empty(range1) || range_is_empty(range2)\<close> evaluates its right operand only
  when the left one is false, so the invariant of \<open>range2\<close> is asserted only for a
  non-empty \<open>range1\<close>.
\<close>

definition range_overlaps_range :: "Range \<Rightarrow> Range \<Rightarrow> error + bool" where
  "range_overlaps_range range1 range2 =
     (case range_is_empty range1 of
        Inl e \<Rightarrow> Inl e
      | Inr e1 \<Rightarrow>
          if e1 then Inr False
          else (case range_is_empty range2 of
                  Inl e \<Rightarrow> Inl e
                | Inr e2 \<Rightarrow>
                    if e2 then Inr False
                    else Inr (\<not> (end' range2 < begin' range1 \<or> end' range1 < begin' range2))))"

definition range_size :: "Range \<Rightarrow> u64" where
  "range_size rng = end' rng - begin' rng + 1"

definition range_contains_range :: "Range \<Rightarrow> Range \<Rightarrow> error + bool" where
  "range_contains_range range1 range2 =
     (case range_is_empty range1 of
        Inl e \<Rightarrow> Inl e
      | Inr e1 \<Rightarrow>
          if e1 then Inr False
          else (case range_is_empty range2 of
                  Inl e \<Rightarrow> Inl e
                | Inr e2 \<Rightarrow>
                    if e2 then Inr False
                    else Inr (begin' range1 \<le> begin' range2 \<and> end' range2 \<le> end' range1)))"

text \<open>
  \<open>range_init\<close> returns \<open>-ERANGE\<close> without touching \<open>*range\<close> when \<open>lob + size\<close>
  wraps; otherwise it stores both fields, asserts the invariant and returns 0. The
  result is the error or the range stored.
\<close>

definition range_init :: "u64 \<Rightarrow> u64 \<Rightarrow> error + Range" where
  "range_init lob size' =
     (if lob + size' < lob then Inl ERANGE
      else (let rng = \<lparr>begin' = lob, end' = lob + size' - 1\<rparr>
            in case range_invariant rng of
                 Inl e \<Rightarrow> Inl e
               | Inr _ \<Rightarrow> Inr rng))"

definition range_init_nofail :: "u64 \<Rightarrow> u64 \<Rightarrow> error + Range" where
  "range_init_nofail begin size' =
     (let rng = \<lparr>begin' = begin, end' = begin + size' - 1\<rparr>
      in case range_invariant rng of
           Inl e \<Rightarrow> Inl e
         | Inr _ \<Rightarrow> Inr rng)"

text \<open>
  \<open>range_extend\<close> updates \<open>*range\<close> in place and asserts nothing; the function returns
  the final value of \<open>*range\<close>.
\<close>

definition range_extend :: "Range \<Rightarrow> Range \<Rightarrow> Range" where
  "range_extend rng extend_by =
     (if begin' extend_by = 0 \<and> end' extend_by = 0 then rng
      else if begin' rng = 0 \<and> end' rng = 0 then extend_by
      else (let range1 = (if begin' extend_by < begin' rng
                          then rng\<lparr>begin' := begin' extend_by\<rparr> else rng)
            in if end' range1 - 1 < end' extend_by - 1
               then range1\<lparr>end' := end' extend_by\<rparr> else range1))"

definition range_get_last :: "u64 \<Rightarrow> u64 \<Rightarrow> u64" where
  "range_get_last offset len = offset + len - 1"

definition range_covers_byte :: "u64 \<Rightarrow> u64 \<Rightarrow> u64 \<Rightarrow> bool" where
  "range_covers_byte offset len byte \<longleftrightarrow> offset \<le> byte \<and> byte \<le> range_get_last offset len"

definition ranges_overlap :: "u64 \<Rightarrow> u64 \<Rightarrow> u64 \<Rightarrow> u64 \<Rightarrow> bool" where
  "ranges_overlap first1 len1 first2 len2 =
     (let last1 = range_get_last first1 len1;
          last2 = range_get_last first2 len2
      in \<not> (last2 < first1 \<or> last1 < first2))"

definition ranges_can_merge :: "Range \<Rightarrow> Range \<Rightarrow> bool" where
  "ranges_can_merge range1 range2 \<longleftrightarrow>
     \<not> (end' range1 < begin' range2 \<or> end' range2 < begin' range1)"

text \<open>
  \<open>range_merge\<close> returns 0 or -1 and updates \<open>*range1\<close> in place: the result is the
  return value together with the final value of \<open>*range1\<close>.
\<close>

definition range_merge :: "Range \<Rightarrow> Range \<Rightarrow> int \<times> Range" where
  "range_merge range1 range2 =
     (if ranges_can_merge range1 range2
      then (let r = (if end' range1 < end' range2
                     then range1\<lparr>end' := end' range2\<rparr> else range1);
                r = (if begin' range2 < begin' r
                     then r\<lparr>begin' := begin' range2\<rparr> else r)
            in (0, r))
      else (- 1, range1))"

definition range_compare :: "Range \<Rightarrow> Range \<Rightarrow> int" where
  "range_compare ra rb =
     (if begin' ra = begin' rb \<and> end' ra = end' rb then 0
      else if range_get_last (begin' ra) (end' ra) < range_get_last (begin' rb) (end' rb)
      then - 1
      else 1)"

section \<open>Sorted insertion with merging\<close>

text \<open>
  Modelled from the spec: \<open>GList\<close>, \<open>g_list_next\<close>, \<open>g_list_remove_link\<close> and
  \<open>g_list_insert_sorted\<close> belong to the GLib library, whose source is not among the
  repository's files; the spec only asks of the sorted insert that it keeps the
  collection ordered by the comparison function. They are written here as GLib
  documents them.

  A \<open>GList\<close> is a chain of doubly linked nodes, each holding a pointer to a \<open>Range\<close>
  of its own. The chain is the list of the ranges its nodes point to, from the head
  on; a \<open>GList *\<close> into the chain is \<open>NULL\<close> (\<open>None\<close>) or the position of a node.
  Writing through \<open>l->data\<close> is an update of the chain at that position.
\<close>

type_synonym GList = "Range list"
type_synonym link = "nat option"

text \<open>\<open>g_list_next(l)\<close> is \<open>l ? l->next : NULL\<close>.\<close>

definition g_list_next :: "GList \<Rightarrow> link \<Rightarrow> link" where
  "g_list_next list l =
     (case l of
        None \<Rightarrow> None
      | Some i \<Rightarrow> if Suc i < length list then Some (Suc i) else None)"

text \<open>
  \<open>g_list_remove_link(l, link)\<close> unlinks the node \<open>link\<close> from its neighbours and
  returns \<open>l\<close>, or \<open>l->next\<close> when \<open>link\<close> is \<open>l\<close> itself; with \<open>link == NULL\<close>
  nothing changes. The result is the chain left and the pointer returned, which
  designates the same node as before at its new position.
\<close>

definition g_list_remove_link :: "GList \<Rightarrow> link \<Rightarrow> link \<Rightarrow> GList \<times> link" where
  "g_list_remove_link list l link' =
     (case link' of
        None \<Rightarrow> (list, l)
      | Some j \<Rightarrow>
          if j < length list
          then (take j list @ drop (Suc j) list,
                case l of
                  None \<Rightarrow> None
                | Some i \<Rightarrow>
                    if i = j then (if Suc j < length list then Some j else None)
                    else if j < i then Some (i - 1)
                    else Some i)
          else (list, l))"

text \<open>
  \<open>g_list_insert_sorted(list, data, func)\<close> walks the chain while
  \<open>func(data, node->data) > 0\<close> and links the new node before the first node where
  it is not, or after the last node.
\<close>

fun g_list_insert_sorted :: "GList \<Rightarrow> Range \<Rightarrow> (Range \<Rightarrow> Range \<Rightarrow> int) \<Rightarrow> GList" where
  "g_list_insert_sorted [] data func = [data]"
| "g_list_insert_sorted (x # xs) data func =
     (if 0 < func data x then x # g_list_insert_sorted xs data func
      else data # x # xs)"

text \<open>
  The \<open>while (l && l != next && nextr)\<close> loop of \<open>g_list_insert_sorted_merged\<close>, on
  the chain and the three variables \<open>l\<close>, \<open>next\<close> and \<open>nextr\<close> it updates.
  \<open>range_merge(r, nextr)\<close> writes through \<open>r = l->data\<close>; \<open>nextr\<close> is only read, so
  it is the value it points to. The result is the chain and \<open>l\<close> at the exit.
\<close>

function g_list_insert_sorted_merged_loop ::
  "GList \<Rightarrow> link \<Rightarrow> link \<Rightarrow> Range option \<Rightarrow> GList \<times> link" where
  "g_list_insert_sorted_merged_loop list l next' nextr =
     (case (l, nextr) of
        (Some i, Some nr) \<Rightarrow>
          if l = next' then (list, l)
          else (let r = list ! i in
                if ranges_can_merge r nr
                then (let list1 = list[i := snd (range_merge r nr)];
                          (list2, l2) = g_list_remove_link list1 l next';
                          next2 = g_list_next list2 l2;
                          nextr2 = (case next2 of
                                      None \<Rightarrow> None
                                    | Some j \<Rightarrow> Some (list2 ! j))
                      in g_list_insert_sorted_merged_loop list2 l2 next2 nextr2)
                else g_list_insert_sorted_merged_loop list (g_list_next list l) next' nextr)
      | _ \<Rightarrow> (list, l))"
  by pat_completeness auto
termination
proof (relation "measure (\<lambda>(list, l, next', nextr).
      length list
      + (case l of None \<Rightarrow> 0 | Some i \<Rightarrow> 1 + (length list - i))
      + (case nextr of
           None \<Rightarrow> 0
         | Some _ \<Rightarrow>
             (case next' of
                None \<Rightarrow> 2
              | Some j \<Rightarrow> if j < length list then 1 else 2)))", goal_cases)
  case 1
  show ?case by simp
next
  case 2
  then show ?case
    by (auto simp: g_list_remove_link_def g_list_next_def split: option.splits if_splits)
next
  case 3
  then show ?case
    by (auto simp: g_list_next_def split: option.splits if_splits)
qed

declare g_list_insert_sorted_merged_loop.simps [simp del]

text \<open>
  \<open>list\<close> keeps pointing at the head node through the loop (the node unlinked is
  \<open>next\<close>, never the head), so the list returned is the chain the loop leaves, with
  \<open>data\<close> inserted when \<open>l\<close> ran off its end.
\<close>

definition g_list_insert_sorted_merged ::
  "GList \<Rightarrow> Range \<Rightarrow> (Range \<Rightarrow> Range \<Rightarrow> int) \<Rightarrow> GList" where
  "g_list_insert_sorted_merged list data func =
     (if list = [] then g_list_insert_sorted list data func
      else (let (list1, l) = g_list_insert_sorted_merged_loop list (Some 0) None (Some data)
            in if l = None then g_list_insert_sorted list1 data func else list1))"

text \<open>A pointer into a chain is valid when it is \<open>NULL\<close> or the position of a node.\<close>

definition valid_link :: "GList \<Rightarrow> link \<Rightarrow> bool" where
  "valid_link list l = (case l of None \<Rightarrow> True | Some i \<Rightarrow> i < length list)"

section \<open>Construction\<close>

lemma range_init_no_wrap:
  "\<not> lob + size' < lob \<Longrightarrow>
     range_init lob size' = Inr \<lparr>begin' = lob, end' = lob + size' - 1\<rparr>"
  unfolding range_init_def range_invariant_def Let_def
  by (simp split: sum.splits) unat_arith

text \<open>
  C2. For every pair of 64-bit values \<open>lob\<close> and \<open>size\<close>: when \<open>lob + size\<close> wraps
  (\<open>lob + size < lob\<close> in wrapping arithmetic) \<open>range_init\<close> fails with \<open>ERANGE\<close>;
  otherwise it succeeds, and for \<open>size > 0\<close> the range it builds has
  \<open>range_size\<close> equal to \<open>size\<close>.
\<close>

theorem range_init_overflow_or_size:
  "(lob + size' < lob \<longrightarrow> range_init lob size' = Inl ERANGE) \<and>
   (\<not> lob + size' < lob \<longrightarrow>
      (\<exists>r. range_init lob size' = Inr r \<and> (0 < size' \<longrightarrow> range_size r = size')))"
  by (simp add: range_init_no_wrap range_size_def) (simp add: range_init_def)

theorem range_init_overflow_or_size_witness:
  "((18446744073709551615 :: u64) + 1 < 18446744073709551615 \<and>
      range_init 18446744073709551615 1 = Inl ERANGE) \<and>
   (\<not> (10 :: u64) + 5 < 10 \<and> (0 :: u64) < 5 \<and>
      (\<exists>r. range_init 10 5 = Inr r \<and> range_size r = 5))"
  using range_init_overflow_or_size [of 18446744073709551615 1]
        range_init_overflow_or_size [of 10 5]
  by simp

text \<open>
  C3. \<open>range_init(0, 0)\<close> passes the wrap test (\<open>0 + 0 < 0\<close> is false) and stores
  \<open>end = 0 + 0 - 1 = 2^64 - 1\<close>: the call succeeds and builds \<open>{begin = 0, end = 2^64 - 1}\<close>,
  which \<open>range_is_empty\<close> reports as not empty.
\<close>

theorem range_init_zero_zero:
  "range_init 0 0 = Inr \<lparr>begin' = 0, end' = 18446744073709551615\<rparr> \<and>
   range_is_empty \<lparr>begin' = 0, end' = 18446744073709551615\<rparr> = Inr False"
  by (simp add: range_init_def range_is_empty_def range_invariant_def)

section \<open>The invariant, read on unsigned values\<close>

lemma range_invariant_unat:
  "range_invariant r = Inr () \<longleftrightarrow> unat (begin' r) \<le> unat (end' r) + 1"
  unfolding range_invariant_def
  by (simp split: if_splits) unat_arith

lemma range_is_empty_Inr:
  "range_invariant r = Inr () \<Longrightarrow> range_is_empty r = Inr (end' r < begin' r)"
  by (simp add: range_is_empty_def)

lemma range_is_empty_True_iff:
  "range_is_empty e = Inr True \<longleftrightarrow> range_invariant e = Inr () \<and> end' e < begin' e"
  by (auto simp: range_is_empty_def split: sum.splits)

lemma range_is_empty_False_iff:
  "range_is_empty r = Inr False \<longleftrightarrow> range_invariant r = Inr () \<and> begin' r \<le> end' r"
  by (auto simp: range_is_empty_def split: sum.splits)

lemma range_is_empty_range_empty: "range_is_empty range_empty = Inr True"
  by (simp add: range_is_empty_def range_invariant_def range_empty_def)

section \<open>Overlap\<close>

lemma range_overlaps_range_empty_right:
  assumes "range_invariant r = Inr ()" and "range_is_empty e = Inr True"
  shows "range_overlaps_range r e = Inr False"
  using assms by (simp add: range_overlaps_range_def range_is_empty_Inr)

lemma range_overlaps_range_empty_left:
  assumes "range_is_empty e = Inr True"
  shows "range_overlaps_range e r = Inr False"
  using assms by (simp add: range_overlaps_range_def)

lemma range_overlaps_range_value:
  assumes "range_invariant r1 = Inr ()" and "range_invariant r2 = Inr ()"
  shows "range_overlaps_range r1 r2 =
           Inr (begin' r1 \<le> end' r1 \<and> begin' r2 \<le> end' r2 \<and>
                begin' r1 \<le> end' r2 \<and> begin' r2 \<le> end' r1)"
  using assms by (auto simp: range_overlaps_range_def range_is_empty_Inr)

text \<open>
  C8. For every range \<open>r\<close> satisfying the invariant and every empty range \<open>e\<close> (the
  canonical \<open>range_empty\<close> among them), \<open>range_overlaps_range\<close> returns false on
  \<open>(r, e)\<close> and on \<open>(e, r)\<close>; and for every pair \<open>r1\<close>, \<open>r2\<close> satisfying the
  invariant, \<open>range_overlaps_range r1 r2\<close> and \<open>range_overlaps_range r2 r1\<close> return the
  same truth value, no assertion failing.
\<close>

theorem range_overlaps_range_empty_symmetric:
  "(range_invariant r = Inr () \<and> range_is_empty e = Inr True \<longrightarrow>
      range_overlaps_range r e = Inr False \<and> range_overlaps_range e r = Inr False) \<and>
   (range_invariant r1 = Inr () \<and> range_invariant r2 = Inr () \<longrightarrow>
      (\<exists>b. range_overlaps_range r1 r2 = Inr b \<and> range_overlaps_range r2 r1 = Inr b))"
proof (intro conjI impI)
  assume "range_invariant r = Inr () \<and> range_is_empty e = Inr True"
  then show "range_overlaps_range r e = Inr False"
    by (simp add: range_overlaps_range_empty_right)
next
  assume "range_invariant r = Inr () \<and> range_is_empty e = Inr True"
  then show "range_overlaps_range e r = Inr False"
    by (simp add: range_overlaps_range_empty_left)
next
  assume inv: "range_invariant r1 = Inr () \<and> range_invariant r2 = Inr ()"
  then have "range_overlaps_range r2 r1 = range_overlaps_range r1 r2"
    by (auto simp: range_overlaps_range_value)
  with inv show "\<exists>b. range_overlaps_range r1 r2 = Inr b \<and> range_overlaps_range r2 r1 = Inr b"
    by (simp add: range_overlaps_range_value)
qed

theorem range_overlaps_range_empty_symmetric_witness:
  "range_invariant \<lparr>begin' = 10, end' = 14\<rparr> = Inr () \<and>
   range_is_empty range_empty = Inr True \<and>
   range_overlaps_range \<lparr>begin' = 10, end' = 14\<rparr> range_empty = Inr False \<and>
   range_overlaps_range range_empty \<lparr>begin' = 10, end' = 14\<rparr> = Inr False \<and>
   range_invariant \<lparr>begin' = 14, end' = 20\<rparr> = Inr () \<and>
   (\<exists>b. range_overlaps_range \<lparr>begin' = 10, end' = 14\<rparr> \<lparr>begin' = 14, end' = 20\<rparr> = Inr b \<and>
        range_overlaps_range \<lparr>begin' = 14, end' = 20\<rparr> \<lparr>begin' = 10, end' = 14\<rparr> = Inr b)"
proof -
  have a: "range_invariant \<lparr>begin' = 10, end' = 14\<rparr> = Inr ()"
    and b: "range_invariant \<lparr>begin' = 14, end' = 20\<rparr> = Inr ()"
    by (simp_all add: range_invariant_def)
  show ?thesis
    using a b range_is_empty_range_empty
      range_overlaps_range_empty_symmetric
        [of "\<lparr>begin' = 10, end' = 14\<rparr>" range_empty
            "\<lparr>begin' = 10, end' = 14\<rparr>" "\<lparr>begin' = 14, end' = 20\<rparr>"]
    by simp
qed

section \<open>Extending a range\<close>


text \<open>
  When neither \<open>end\<close> is 0 the comparison on \<open>end - 1\<close> is the comparison of the
  \<open>end\<close> fields themselves.
\<close>

lemma word_pred_less_iff:
  fixes a b :: u64
  assumes "a \<noteq> 0" and "b \<noteq> 0"
  shows "a - 1 < b - 1 \<longleftrightarrow> a < b"
  using assms by unat_arith

lemma range_extend_end:
  assumes "end' r \<noteq> 0" and "end' extend_by \<noteq> 0"
  shows "end' (range_extend r extend_by) = max (end' r) (end' extend_by)"
  using assms
  by (auto simp: range_extend_def Let_def word_pred_less_iff max_def)





text \<open>
  A non-empty \<open>r\<close> other than the placeholder stays inside the range left, so the
  call grows \<open>r\<close>; the placeholder \<open>{0, 0}\<close> is replaced by \<open>by\<close>.
\<close>

lemma range_extend_keeps:
  assumes "range_is_empty r = Inr False"
    and "r \<noteq> \<lparr>begin' = 0, end' = 0\<rparr>"
    and "range_is_empty extend_by = Inr False"
  shows "begin' (range_extend r extend_by) \<le> begin' r \<and>
         end' r \<le> end' (range_extend r extend_by)"
proof (cases "begin' extend_by = 0 \<and> end' extend_by = 0")
  case True
  then show ?thesis by (simp add: range_extend_def)
next
  case False
  from assms(1) have r: "begin' r \<le> end' r"
    by (simp add: range_is_empty_False_iff)
  from assms(2) have rnz: "\<not> (begin' r = 0 \<and> end' r = 0)"
    by (cases r) auto
  with r have rz: "end' r \<noteq> 0"
    by auto
  from assms(3) have "begin' extend_by \<le> end' extend_by"
    by (simp add: range_is_empty_False_iff)
  with False have ez: "end' extend_by \<noteq> 0"
    by auto
  have "begin' (range_extend r extend_by) \<le> begin' r"
    using False rnz by (auto simp: range_extend_def Let_def)
  moreover have "end' r \<le> end' (range_extend r extend_by)"
    using rz ez by (simp add: range_extend_end)
  ultimately show ?thesis by simp
qed

text \<open>
  C9. For every pair of ranges \<open>r\<close> and \<open>by\<close> satisfying the invariant with
  \<open>range_contains_range(r, by)\<close> true, \<open>range_extend(r, by)\<close> leaves \<open>r\<close> as it was.
\<close>

theorem range_extend_contained:
  assumes "range_invariant r = Inr ()"
    and "range_invariant extend_by = Inr ()"
    and "range_contains_range r extend_by = Inr True"
  shows "range_extend r extend_by = r"
proof -
  from assms have "begin' r \<le> begin' extend_by \<and> end' extend_by \<le> end' r \<and>
      begin' extend_by \<le> end' extend_by"
    by (auto simp: range_contains_range_def range_is_empty_Inr split: if_splits)
  then show ?thesis
    unfolding range_extend_def Let_def
    by (simp split: if_splits) unat_arith
qed

theorem range_extend_contained_witness:
  "range_invariant \<lparr>begin' = 5, end' = 20\<rparr> = Inr () \<and>
   range_invariant \<lparr>begin' = 10, end' = 14\<rparr> = Inr () \<and>
   range_contains_range \<lparr>begin' = 5, end' = 20\<rparr> \<lparr>begin' = 10, end' = 14\<rparr> = Inr True \<and>
   range_extend \<lparr>begin' = 5, end' = 20\<rparr> \<lparr>begin' = 10, end' = 14\<rparr> = \<lparr>begin' = 5, end' = 20\<rparr>"
proof -
  have a: "range_invariant \<lparr>begin' = 5, end' = 20\<rparr> = Inr ()"
    and b: "range_invariant \<lparr>begin' = 10, end' = 14\<rparr> = Inr ()"
    by (simp_all add: range_invariant_def)
  have c: "range_contains_range \<lparr>begin' = 5, end' = 20\<rparr> \<lparr>begin' = 10, end' = 14\<rparr> = Inr True"
    by (simp add: range_contains_range_def range_is_empty_def range_invariant_def)
  show ?thesis
    using a b c range_extend_contained [OF a b c] by simp
qed

text \<open>
  Whatever branch \<open>range_extend\<close> takes, the range it leaves is one of its arguments,
  or begins no later than both and ends where one of them ends.
\<close>

lemma range_extend_fields:
  "range_extend r extend_by = r \<or> range_extend r extend_by = extend_by \<or>
   (begin' (range_extend r extend_by) \<le> begin' r \<and>
    begin' (range_extend r extend_by) \<le> begin' extend_by \<and>
    (end' (range_extend r extend_by) = end' r \<or>
     end' (range_extend r extend_by) = end' extend_by))"
  by (auto simp: range_extend_def Let_def)

text \<open>
  C10. \<open>range_extend\<close> preserves the invariant: when \<open>r\<close> and \<open>by\<close> each satisfy
  \<open>begin \<le> end\<close> or \<open>begin = end + 1\<close> (wrapping), so does the range left by
  \<open>range_extend(r, by)\<close>.
\<close>

theorem range_extend_invariant:
  assumes "range_invariant r = Inr ()"
    and "range_invariant extend_by = Inr ()"
  shows "range_invariant (range_extend r extend_by) = Inr ()"
proof -
  from assms have r: "unat (begin' r) \<le> unat (end' r) + 1"
    and e: "unat (begin' extend_by) \<le> unat (end' extend_by) + 1"
    by (simp_all add: range_invariant_unat)
  consider "range_extend r extend_by = r" | "range_extend r extend_by = extend_by"
    | "unat (begin' (range_extend r extend_by)) \<le> unat (begin' r)"
      "unat (begin' (range_extend r extend_by)) \<le> unat (begin' extend_by)"
      "end' (range_extend r extend_by) = end' r \<or>
       end' (range_extend r extend_by) = end' extend_by"
    using range_extend_fields [of r extend_by] by (auto simp: word_le_nat_alt)
  then show ?thesis
  proof cases
    case 1
    with assms show ?thesis by simp
  next
    case 2
    with assms show ?thesis by simp
  next
    case 3
    from 3(3) r e 3(1) 3(2)
    have "unat (begin' (range_extend r extend_by)) \<le> unat (end' (range_extend r extend_by)) + 1"
      by (elim disjE) simp_all
    then show ?thesis
      by (simp add: range_invariant_unat)
  qed
qed

theorem range_extend_invariant_witness:
  "range_invariant \<lparr>begin' = 6, end' = 5\<rparr> = Inr () \<and>
   range_invariant range_empty = Inr () \<and>
   range_extend \<lparr>begin' = 6, end' = 5\<rparr> range_empty = \<lparr>begin' = 1, end' = 0\<rparr> \<and>
   range_invariant (range_extend \<lparr>begin' = 6, end' = 5\<rparr> range_empty) = Inr ()"
proof -
  have a: "range_invariant \<lparr>begin' = 6, end' = 5\<rparr> = Inr ()"
    and b: "range_invariant range_empty = Inr ()"
    by (simp_all add: range_invariant_def range_empty_def)
  have c: "range_extend \<lparr>begin' = 6, end' = 5\<rparr> range_empty = \<lparr>begin' = 1, end' = 0\<rparr>"
    by (simp add: range_extend_def range_empty_def)
  show ?thesis
    using a b c range_extend_invariant [OF a b] by simp
qed

section \<open>Merging and comparing\<close>

text \<open>
  C1. \<open>range_init(10, 5)\<close> builds \<open>{begin = 10, end = 14}\<close> and \<open>range_init(15, 6)\<close>
  builds \<open>{begin = 15, end = 20}\<close>. On these two \<open>ranges_can_merge\<close> is false, since
  \<open>14 < 15\<close>: \<open>range_merge\<close> returns -1 and leaves the first range at
  \<open>{begin = 10, end = 14}\<close>.
\<close>

theorem range_merge_touching:
  "range_init 10 5 = Inr \<lparr>begin' = 10, end' = 14\<rparr> \<and>
   range_init 15 6 = Inr \<lparr>begin' = 15, end' = 20\<rparr> \<and>
   \<not> ranges_can_merge \<lparr>begin' = 10, end' = 14\<rparr> \<lparr>begin' = 15, end' = 20\<rparr> \<and>
   range_merge \<lparr>begin' = 10, end' = 14\<rparr> \<lparr>begin' = 15, end' = 20\<rparr> =
     (- 1, \<lparr>begin' = 10, end' = 14\<rparr>)"
  by (simp add: range_init_def range_invariant_def range_merge_def ranges_can_merge_def)

text \<open>
  On ranges that satisfy the invariant and are not empty, \<open>ranges_can_merge\<close> is the
  overlap test of \<open>range_overlaps_range\<close>.
\<close>

lemma ranges_can_merge_overlaps:
  assumes "range_is_empty r1 = Inr False" and "range_is_empty r2 = Inr False"
  shows "range_overlaps_range r1 r2 = Inr (ranges_can_merge r1 r2)"
  using assms by (auto simp: range_overlaps_range_def ranges_can_merge_def)

text \<open>
  C6. \<open>range_merge\<close> on \<open>{10, 14}\<close> and \<open>{16, 20}\<close> returns -1 and leaves the first
  range at \<open>{10, 14}\<close>; and for every pair of ranges on which \<open>ranges_can_merge\<close> is
  false, \<open>range_merge\<close> returns -1 and leaves its first argument as it was.
\<close>

theorem range_merge_no_overlap:
  "range_merge \<lparr>begin' = 10, end' = 14\<rparr> \<lparr>begin' = 16, end' = 20\<rparr> =
     (- 1, \<lparr>begin' = 10, end' = 14\<rparr>) \<and>
   (\<not> ranges_can_merge r1 r2 \<longrightarrow> range_merge r1 r2 = (- 1, r1))"
  by (simp add: range_merge_def ranges_can_merge_def)

theorem range_merge_no_overlap_witness:
  "\<not> ranges_can_merge \<lparr>begin' = 30, end' = 40\<rparr> \<lparr>begin' = 5, end' = 29\<rparr> \<and>
   range_merge \<lparr>begin' = 30, end' = 40\<rparr> \<lparr>begin' = 5, end' = 29\<rparr> =
     (- 1, \<lparr>begin' = 30, end' = 40\<rparr>)"
proof -
  have a: "\<not> ranges_can_merge \<lparr>begin' = 30, end' = 40\<rparr> \<lparr>begin' = 5, end' = 29\<rparr>"
    by (simp add: ranges_can_merge_def)
  show ?thesis
    using a range_merge_no_overlap [of "\<lparr>begin' = 30, end' = 40\<rparr>" "\<lparr>begin' = 5, end' = 29\<rparr>"]
    by simp
qed

text \<open>
  C4. \<open>range_compare\<close> returns 0 exactly when both fields agree. Otherwise it returns
  -1 when the key \<open>begin + end - 1\<close> (wrapping; \<open>range_get_last\<close> applied to the two
  fields) of the first range is below that of the second, and 1 when it is not. The
  order is not that of the \<open>end\<close> fields: \<open>{0, 10}\<close> has the larger \<open>end\<close> and
  compares below \<open>{5, 8}\<close>.
\<close>

theorem range_compare_key:
  "(range_compare ra rb = 0 \<longleftrightarrow> begin' ra = begin' rb \<and> end' ra = end' rb) \<and>
   (range_compare ra rb \<noteq> 0 \<longrightarrow>
      range_compare ra rb =
        (if begin' ra + end' ra - 1 < begin' rb + end' rb - 1 then - 1 else 1)) \<and>
   end' \<lparr>begin' = 5, end' = 8\<rparr> < end' \<lparr>begin' = 0, end' = 10\<rparr> \<and>
   range_compare \<lparr>begin' = 0, end' = 10\<rparr> \<lparr>begin' = 5, end' = 8\<rparr> = - 1"
  by (simp add: range_compare_def range_get_last_def)

theorem range_compare_key_witness:
  "range_compare \<lparr>begin' = 15, end' = 20\<rparr> \<lparr>begin' = 5, end' = 10\<rparr> \<noteq> 0 \<and>
   \<not> (15 :: u64) + 20 - 1 < 5 + 10 - 1 \<and>
   range_compare \<lparr>begin' = 15, end' = 20\<rparr> \<lparr>begin' = 5, end' = 10\<rparr> = 1"
  using range_compare_key [of "\<lparr>begin' = 15, end' = 20\<rparr>" "\<lparr>begin' = 5, end' = 10\<rparr>"]
  by simp

section \<open>The sorted, merged collection\<close>

text \<open>
  The loop reads \<open>list ! i\<close> only at positions of nodes: it starts at the head of a
  non-empty chain, and the two GLib functions return valid pointers.
\<close>

lemma valid_link_g_list_next: "valid_link list (g_list_next list l)"
  by (simp add: valid_link_def g_list_next_def split: option.splits)

lemma valid_link_g_list_remove_link:
  assumes "valid_link list l"
  shows "valid_link (fst (g_list_remove_link list l link')) (snd (g_list_remove_link list l link'))"
  using assms
  by (auto simp: valid_link_def g_list_remove_link_def split: option.splits)

lemma g_list_insert_sorted_merged_two:
  "g_list_insert_sorted_merged
     (g_list_insert_sorted_merged [] \<lparr>begin' = 5, end' = 10\<rparr> range_compare)
     \<lparr>begin' = 15, end' = 20\<rparr> range_compare =
   [\<lparr>begin' = 5, end' = 10\<rparr>, \<lparr>begin' = 15, end' = 20\<rparr>]"
  by (simp add: g_list_insert_sorted_merged_def g_list_insert_sorted_merged_loop.simps
      ranges_can_merge_def g_list_next_def range_compare_def range_get_last_def)

text \<open>
  With \<open>{9, 16}\<close> the loop merges it into the head \<open>{5, 10}\<close>, which becomes
  \<open>{5, 16}\<close>, then merges the next node \<open>{15, 20}\<close> into the head and unlinks it, and
  stops at the end of the chain with \<open>l\<close> still on the head.
\<close>

lemma g_list_insert_sorted_merged_loop_third:
  "g_list_insert_sorted_merged_loop
     [\<lparr>begin' = 5, end' = 10\<rparr>, \<lparr>begin' = 15, end' = 20\<rparr>] (Some 0) None
     (Some \<lparr>begin' = 9, end' = 16\<rparr>) =
   ([\<lparr>begin' = 5, end' = 20\<rparr>], Some 0)"
  by (simp add: g_list_insert_sorted_merged_loop.simps ranges_can_merge_def
      range_merge_def g_list_next_def g_list_remove_link_def)

text \<open>
  C7. Inserting \<open>{5, 10}\<close>, then \<open>{15, 20}\<close>, then \<open>{9, 16}\<close> into the empty list with
  \<open>g_list_insert_sorted_merged\<close> and \<open>range_compare\<close> leaves a list of exactly one
  entry, the merged range \<open>{5, 20}\<close>.
\<close>

theorem g_list_insert_sorted_merged_example:
  "g_list_insert_sorted_merged
     (g_list_insert_sorted_merged
        (g_list_insert_sorted_merged [] \<lparr>begin' = 5, end' = 10\<rparr> range_compare)
        \<lparr>begin' = 15, end' = 20\<rparr> range_compare)
     \<lparr>begin' = 9, end' = 16\<rparr> range_compare =
   [\<lparr>begin' = 5, end' = 20\<rparr>]"
  by (simp add: g_list_insert_sorted_merged_two g_list_insert_sorted_merged_loop_third)
     (simp add: g_list_insert_sorted_merged_def g_list_insert_sorted_merged_loop_third)

end
